theory Spec2Isabelle
  imports
    Complex_Main
    "HOL-Library.Char_ord"
    "HOL-Library.List_Lexorder"
    "HOL-Library.Product_Lexorder"
    "HOL-Library.AList"
begin

section \<open>Shopping-list generation of the meal planner\<close>

text \<open>
  A shallow embedding of \<^verbatim>\<open>meal_planner/core/shopping_list.py\<close> together with the
  range query of \<^verbatim>\<open>meal_planner/core/meal_plan.py\<close> and the settings slot of
  \<^verbatim>\<open>meal_planner/config.py\<close>.

  Conventions of the embedding:
  \<^item> Python floats (SQLite \<^verbatim>\<open>REAL\<close>) are exact rationals; \<^verbatim>\<open>round(x, 2)\<close> is rounding
    of the exact value to a multiple of \<open>1/100\<close>, ties to the even neighbour.
  \<^item> Text is ASCII: \<^verbatim>\<open>str.lower\<close>, \<^verbatim>\<open>str.strip\<close>, \<^verbatim>\<open>str.title\<close> and SQLite's
    \<^verbatim>\<open>LOWER\<close> act on the letters \<open>A\<close>--\<open>Z\<close>, \<open>a\<close>--\<open>z\<close> and on the ASCII white space
    characters; every other character is left as it is.
  \<^item> A table is the list of its rows in row-id order; a query without \<^verbatim>\<open>ORDER BY\<close>
    returns the rows in that order.
  \<^item> A Python \<^verbatim>\<open>dict\<close> that is iterated is an association list with distinct keys in
    insertion order (\<^const>\<open>AList.update\<close> overwrites in place and appends a new key at
    the end, as assignment to a \<^verbatim>\<open>dict\<close> entry does); a \<^verbatim>\<open>dict\<close> that is only
    looked up is a map.
\<close>

subsection \<open>Strings\<close>

definition upper_letters :: string where
  "upper_letters = ''ABCDEFGHIJKLMNOPQRSTUVWXYZ''"

definition lower_letters :: string where
  "lower_letters = ''abcdefghijklmnopqrstuvwxyz''"

definition lower_char :: "char \<Rightarrow> char" where
  "lower_char c = (case map_of (zip upper_letters lower_letters) c of Some d \<Rightarrow> d | None \<Rightarrow> c)"

definition upper_char :: "char \<Rightarrow> char" where
  "upper_char c = (case map_of (zip lower_letters upper_letters) c of Some d \<Rightarrow> d | None \<Rightarrow> c)"

definition is_cased :: "char \<Rightarrow> bool" where
  "is_cased c = (c \<in> set upper_letters \<or> c \<in> set lower_letters)"

text \<open>The ASCII characters for which \<^verbatim>\<open>str.isspace\<close> holds.\<close>

definition is_space :: "char \<Rightarrow> bool" where
  "is_space c = (c \<in> set [CHR 0x09, CHR 0x0A, CHR 0x0B, CHR 0x0C, CHR 0x0D,
                            CHR 0x1C, CHR 0x1D, CHR 0x1E, CHR 0x1F, CHR 0x20])"

text \<open>\<^verbatim>\<open>s.lower()\<close>\<close>

definition lower :: "string \<Rightarrow> string" where
  "lower s = map lower_char s"

text \<open>\<^verbatim>\<open>s.strip()\<close>: leading and trailing white space removed.\<close>

definition strip :: "string \<Rightarrow> string" where
  "strip s = rev (dropWhile is_space (rev (dropWhile is_space s)))"

text \<open>
  \<^verbatim>\<open>s.title()\<close>: a letter that follows a letter is lower-cased, any other letter is
  upper-cased; the flag is ``the previous character is cased''.
\<close>

fun title_from :: "bool \<Rightarrow> string \<Rightarrow> string" where
  "title_from prev [] = []"
| "title_from prev (c # cs) =
     (if is_cased c then (if prev then lower_char c else upper_char c) # title_from True cs
      else c # title_from False cs)"

definition title :: "string \<Rightarrow> string" where
  "title s = title_from False s"

text \<open>SQLite's \<^verbatim>\<open>LOWER(x)\<close>: lower-cases ASCII letters; it does not trim.\<close>

definition sql_lower :: "string \<Rightarrow> string" where
  "sql_lower s = map lower_char s"

text \<open>\<^verbatim>\<open>a or b\<close> for an optional string \<open>a\<close>: \<^verbatim>\<open>None\<close> and the empty string are falsy.\<close>

definition or_str :: "string option \<Rightarrow> string \<Rightarrow> string" where
  "or_str a b = (case a of None \<Rightarrow> b | Some s \<Rightarrow> if s = [] then b else s)"

subsection \<open>Numbers\<close>

text \<open>\<^verbatim>\<open>round(x, 2)\<close>\<close>

definition py_round2 :: "rat \<Rightarrow> rat" where
  "py_round2 x =
     (let y = x * 100; f = \<lfloor>y\<rfloor>; d = y - of_int f
      in of_int (if d < 1 / 2 then f else if 1 / 2 < d then f + 1
                 else if even f then f else f + 1) / 100)"

text \<open>\<^verbatim>\<open>q or 0\<close> for an optional number.\<close>

definition or_zero :: "rat option \<Rightarrow> rat" where
  "or_zero q = (case q of None \<Rightarrow> 0 | Some v \<Rightarrow> v)"

subsection \<open>Tables\<close>

record meal_plan_row =
  mp_date :: string
  mp_meal_slot :: string
  mp_recipe_id :: "int option"
  mp_servings :: int

record recipe_ingredient_row =
  ri_recipe_id :: int
  ri_name :: string
  ri_quantity :: "rat option"
  ri_unit :: "string option"
  ri_estimated_price :: "rat option"
  ri_shopping_name :: "string option"
  ri_shopping_qty :: "rat option"
  ri_shopping_unit :: "string option"

record pantry_row =
  p_name :: string
  p_quantity :: "rat option"
  p_estimated_price :: "rat option"
  p_preferred_store_id :: "int option"

record staple_row =
  st_name :: string
  st_preferred_store_id :: "int option"
  st_need_to_buy :: int

record known_price_row =
  kp_item_name :: string
  kp_unit_price :: rat

record database =
  meal_plan :: "meal_plan_row list"
  recipe_ingredients :: "recipe_ingredient_row list"
  pantry :: "pantry_row list"
  staples :: "staple_row list"
  known_prices :: "known_price_row list"
  stores :: "(int \<times> string) list"
  settings :: "string \<rightharpoonup> string"

text \<open>
  \<^verbatim>\<open>LEFT JOIN stores s ON x.preferred_store_id = s.id\<close>, column \<^verbatim>\<open>s.name\<close>: the name of
  the referenced store, \<^verbatim>\<open>NULL\<close> when there is no reference.
\<close>

definition joined_store_name :: "database \<Rightarrow> int option \<Rightarrow> string option" where
  "joined_store_name db sid = (case sid of None \<Rightarrow> None | Some i \<Rightarrow> map_of (stores db) i)"

subsection \<open>The range query\<close>

text \<open>
  \<^verbatim>\<open>get_meals_in_range\<close>: \<^verbatim>\<open>WHERE mp.date >= ? AND mp.date <= ? ORDER BY mp.date, mp.meal_slot\<close>,
  dates compared as text.
\<close>

definition get_meals_in_range :: "database \<Rightarrow> string \<Rightarrow> string \<Rightarrow> meal_plan_row list" where
  "get_meals_in_range db start end_date =
     sort_key (\<lambda>r. (mp_date r, mp_meal_slot r))
       (filter (\<lambda>r. start \<le> mp_date r \<and> mp_date r \<le> end_date) (meal_plan db))"

subsection \<open>Demand aggregation\<close>

type_synonym key = "string \<times> string"

text \<open>\<^verbatim>\<open>required\<close> (a \<^verbatim>\<open>defaultdict(float)\<close>) and \<^verbatim>\<open>ingredient_prices\<close>.\<close>

type_synonym agg_state = "(key \<times> rat) list \<times> (key \<rightharpoonup> rat)"

definition s_name :: "recipe_ingredient_row \<Rightarrow> string" where
  "s_name ing = strip (lower (or_str (ri_shopping_name ing) (ri_name ing)))"

definition s_unit :: "recipe_ingredient_row \<Rightarrow> string" where
  "s_unit ing = strip (lower (or_str (ri_shopping_unit ing) (or_str (ri_unit ing) [])))"

definition s_qty :: "recipe_ingredient_row \<Rightarrow> rat" where
  "s_qty ing = (case ri_shopping_qty ing of Some q \<Rightarrow> q | None \<Rightarrow> or_zero (ri_quantity ing))"

text \<open>Reading \<^verbatim>\<open>required[key]\<close> of the \<^verbatim>\<open>defaultdict(float)\<close>.\<close>

definition required_get :: "(key \<times> rat) list \<Rightarrow> key \<Rightarrow> rat" where
  "required_get required k = (case map_of required k of None \<Rightarrow> 0 | Some v \<Rightarrow> v)"

text \<open>The body of \<^verbatim>\<open>for ing in ings\<close>.\<close>

definition agg_ing :: "int \<Rightarrow> recipe_ingredient_row \<Rightarrow> agg_state \<Rightarrow> agg_state" where
  "agg_ing servings ing st =
     (let k = (s_name ing, s_unit ing);
          qty = s_qty ing * of_int servings
      in (AList.update k (required_get (fst st) k + qty) (fst st),
          (case ri_estimated_price ing of
             None \<Rightarrow> snd st
           | Some p \<Rightarrow> (case snd st k of None \<Rightarrow> (snd st)(k \<mapsto> p) | Some _ \<Rightarrow> snd st))))"

text \<open>\<^verbatim>\<open>SELECT ... FROM recipe_ingredients WHERE recipe_id = ?\<close>\<close>

definition ings_of :: "database \<Rightarrow> int \<Rightarrow> recipe_ingredient_row list" where
  "ings_of db rid = filter (\<lambda>r. ri_recipe_id r = rid) (recipe_ingredients db)"

text \<open>\<^verbatim>\<open>if not entry.recipe_id: continue\<close>: \<^verbatim>\<open>None\<close> and \<open>0\<close> are falsy.\<close>

definition has_recipe :: "meal_plan_row \<Rightarrow> bool" where
  "has_recipe e = (case mp_recipe_id e of None \<Rightarrow> False | Some rid \<Rightarrow> rid \<noteq> 0)"

text \<open>The loop \<^verbatim>\<open>for entry in entries\<close>.\<close>

fun agg_entries :: "database \<Rightarrow> meal_plan_row list \<Rightarrow> agg_state \<Rightarrow> agg_state" where
  "agg_entries db [] st = st"
| "agg_entries db (e # es) st =
     (if \<not> has_recipe e then agg_entries db es st
      else agg_entries db es
             (fold (agg_ing (mp_servings e)) (ings_of db (the (mp_recipe_id e))) st))"

definition aggregate :: "database \<Rightarrow> meal_plan_row list \<Rightarrow> agg_state" where
  "aggregate db entries = agg_entries db entries ([], Map.empty)"

subsection \<open>Snapshots of pantry, staples and known prices\<close>

text \<open>\<^verbatim>\<open>{row["name"].lower().strip(): (row["quantity"] or 0) for row in pantry_rows}\<close>\<close>

definition pantry_qty :: "database \<Rightarrow> string \<rightharpoonup> rat" where
  "pantry_qty db =
     fold (\<lambda>row m. m(strip (lower (p_name row)) \<mapsto> or_zero (p_quantity row))) (pantry db) Map.empty"

text \<open>\<^verbatim>\<open>SELECT name FROM staples WHERE need_to_buy = 0\<close>, as a set of normalised names.\<close>

definition staple_names :: "database \<Rightarrow> string set" where
  "staple_names db =
     set (map (\<lambda>row. strip (lower (st_name row))) (filter (\<lambda>row. st_need_to_buy row = 0) (staples db)))"

definition pantry_prices :: "database \<Rightarrow> string \<rightharpoonup> rat" where
  "pantry_prices db =
     fold (\<lambda>row m. case p_estimated_price row of
                      None \<Rightarrow> m
                    | Some p \<Rightarrow> m(strip (lower (p_name row)) \<mapsto> p))
       (pantry db) Map.empty"

text \<open>\<^verbatim>\<open>{row["item_name"].lower().strip(): row["unit_price"] for row in known_price_rows}\<close>\<close>

definition known_price_map :: "database \<Rightarrow> string \<rightharpoonup> rat" where
  "known_price_map db =
     fold (\<lambda>row m. m(strip (lower (kp_item_name row)) \<mapsto> kp_unit_price row))
       (known_prices db) Map.empty"

subsection \<open>Supply reconciliation, store assignment and price resolution\<close>

text \<open>A line item \<^verbatim>\<open>(display_name, quantity, unit, estimated_cost)\<close>.\<close>

type_synonym line = "string \<times> rat \<times> string \<times> rat option"

text \<open>\<^verbatim>\<open>store_items\<close>, a \<^verbatim>\<open>defaultdict(list)\<close>.\<close>

type_synonym store_items = "(string \<times> line list) list"

text \<open>\<^verbatim>\<open>store_items[store].append(item)\<close>\<close>

definition append_item :: "store_items \<Rightarrow> string \<Rightarrow> line \<Rightarrow> store_items" where
  "append_item items store item =
     AList.update store ((case map_of items store of None \<Rightarrow> [] | Some b \<Rightarrow> b) @ [item]) items"

text \<open>
  \<^verbatim>\<open>pantry_qty.get(ing_name, 0)\<close>, and the pantry offset: \<^verbatim>\<open>None\<close> stands for
  \<^verbatim>\<open>continue\<close>, \<open>Some buy_qty\<close> for the quantity the rest of the loop body works with.
\<close>

definition on_hand :: "database \<Rightarrow> string \<Rightarrow> rat" where
  "on_hand db ing_name = (case pantry_qty db ing_name of None \<Rightarrow> 0 | Some q \<Rightarrow> q)"

definition buy_quantity :: "database \<Rightarrow> bool \<Rightarrow> string \<Rightarrow> rat \<Rightarrow> rat option" where
  "buy_quantity db use_pantry ing_name needed =
     (if use_pantry then
        (let buy_qty = needed - on_hand db ing_name
         in if buy_qty \<le> 0 then None else Some buy_qty)
      else Some needed)"

text \<open>
  \<^verbatim>\<open>SELECT s.name as store_name FROM pantry p LEFT JOIN stores s ... WHERE LOWER(p.name) = ? LIMIT 1\<close>
  and the choice of the bucket name from the row.
\<close>

definition store_for :: "database \<Rightarrow> string \<Rightarrow> string" where
  "store_for db ing_name =
     (case find (\<lambda>p. sql_lower (p_name p) = ing_name) (pantry db) of
        None \<Rightarrow> ''No Store Assigned''
      | Some p \<Rightarrow>
          (case joined_store_name db (p_preferred_store_id p) of
             None \<Rightarrow> ''No Store Assigned''
           | Some s \<Rightarrow> if s = [] then ''No Store Assigned'' else s))"

text \<open>Price resolution: known price, then recipe ingredient price, then pantry price.\<close>

definition resolve_price :: "database \<Rightarrow> (key \<rightharpoonup> rat) \<Rightarrow> key \<Rightarrow> rat option" where
  "resolve_price db ingredient_prices k =
     (case known_price_map db (fst k) of
        Some p \<Rightarrow> Some p
      | None \<Rightarrow>
          (case ingredient_prices k of
             Some p \<Rightarrow> Some p
           | None \<Rightarrow> pantry_prices db (fst k)))"

text \<open>
  The body of \<^verbatim>\<open>for (ing_name, unit), needed in required.items()\<close>: the bucket and the
  line it appends, or \<^verbatim>\<open>None\<close> where it takes a \<^verbatim>\<open>continue\<close>.
\<close>

definition emit_line ::
  "database \<Rightarrow> bool \<Rightarrow> (key \<rightharpoonup> rat) \<Rightarrow> key \<times> rat \<Rightarrow> (string \<times> line) option" where
  "emit_line db use_pantry ingredient_prices item =
     (let ing_name = fst (fst item); unit = snd (fst item); needed = snd item
      in if ing_name \<in> staple_names db then None
         else (case buy_quantity db use_pantry ing_name needed of
                 None \<Rightarrow> None
               | Some buy_qty \<Rightarrow>
                   Some (store_for db ing_name,
                         (title ing_name, py_round2 buy_qty, unit,
                          map_option (\<lambda>unit_price. py_round2 (unit_price * buy_qty))
                            (resolve_price db ingredient_prices (ing_name, unit))))))"

definition reconcile_step ::
  "database \<Rightarrow> bool \<Rightarrow> (key \<rightharpoonup> rat) \<Rightarrow> key \<times> rat \<Rightarrow> store_items \<Rightarrow> store_items" where
  "reconcile_step db use_pantry ingredient_prices item items =
     (case emit_line db use_pantry ingredient_prices item of
        None \<Rightarrow> items
      | Some (store, l) \<Rightarrow> append_item items store l)"

definition reconcile ::
  "database \<Rightarrow> bool \<Rightarrow> (key \<rightharpoonup> rat) \<Rightarrow> (key \<times> rat) list \<Rightarrow> store_items" where
  "reconcile db use_pantry ingredient_prices required =
     fold (reconcile_step db use_pantry ingredient_prices) required []"

text \<open>\<^verbatim>\<open>for store in store_items: store_items[store].sort(key=lambda x: x[0])\<close>\<close>

definition sort_stores :: "store_items \<Rightarrow> store_items" where
  "sort_stores items = map (\<lambda>(store, ls). (store, sort_key fst ls)) items"

subsection \<open>Staple injection\<close>

text \<open>
  \<^verbatim>\<open>SELECT s.name, s.category, st.name as store_name FROM staples s LEFT JOIN stores st ...
  WHERE s.need_to_buy = 1\<close>: the staple's name and the joined store name.
\<close>

definition staple_need_rows :: "database \<Rightarrow> (string \<times> string option) list" where
  "staple_need_rows db =
     map (\<lambda>row. (st_name row, joined_store_name db (st_preferred_store_id row)))
       (filter (\<lambda>row. st_need_to_buy row = 1) (staples db))"

definition already_listed :: "store_items \<Rightarrow> string \<Rightarrow> bool" where
  "already_listed items staple_lower =
     list_ex (\<lambda>(store, ls). list_ex (\<lambda>item. strip (lower (fst item)) = staple_lower) ls) items"

text \<open>The body of \<^verbatim>\<open>for row in staple_need_rows\<close>.\<close>

definition add_staple :: "database \<Rightarrow> string \<times> string option \<Rightarrow> store_items \<Rightarrow> store_items" where
  "add_staple db row items =
     (let store = or_str (snd row) ''Staples'';
          staple_lower = strip (lower (fst row))
      in if \<not> already_listed items staple_lower
         then append_item items store (fst row, 0, [], known_price_map db staple_lower)
         else items)"

definition add_staples :: "database \<Rightarrow> store_items \<Rightarrow> store_items" where
  "add_staples db items = fold (add_staple db) (staple_need_rows db) items"

subsection \<open>\<^verbatim>\<open>generate\<close>\<close>

text \<open>
  The part of \<^verbatim>\<open>generate\<close> after the two early returns: the recipe-driven lists,
  grouped by store and sorted, then the staple pass and the second sort.
\<close>

definition recipe_lists :: "database \<Rightarrow> bool \<Rightarrow> agg_state \<Rightarrow> store_items" where
  "recipe_lists db use_pantry agg = sort_stores (reconcile db use_pantry (snd agg) (fst agg))"

definition build_list :: "database \<Rightarrow> bool \<Rightarrow> agg_state \<Rightarrow> store_items" where
  "build_list db use_pantry agg = sort_stores (add_staples db (recipe_lists db use_pantry agg))"

definition generate :: "database \<Rightarrow> string \<Rightarrow> string \<Rightarrow> bool \<Rightarrow> store_items" where
  "generate db start_date end_date use_pantry =
     (let entries = get_meals_in_range db start_date end_date
      in if entries = [] then []
         else (let agg = aggregate db entries
               in if fst agg = [] then [] else build_list db use_pantry agg))"

subsection \<open>Reading the iteration order and the result\<close>

text \<open>
  What one ingredient of an entry with the given servings contributes: its aggregation
  key, its quantity and its estimated price.
\<close>

definition contribution :: "int \<Rightarrow> recipe_ingredient_row \<Rightarrow> key \<times> rat \<times> rat option" where
  "contribution servings ing =
     ((s_name ing, s_unit ing), s_qty ing * of_int servings, ri_estimated_price ing)"

text \<open>
  All contributions in the order in which the two nested loops of \<^verbatim>\<open>generate\<close> meet
  them: entry by entry, and within an entry ingredient by ingredient.
\<close>

definition contributions :: "database \<Rightarrow> meal_plan_row list \<Rightarrow> (key \<times> rat \<times> rat option) list" where
  "contributions db entries =
     concat (map (\<lambda>e. if has_recipe e
                       then map (contribution (mp_servings e)) (ings_of db (the (mp_recipe_id e)))
                       else []) entries)"

text \<open>The sum of the quantities contributed to one key.\<close>

definition demand :: "key \<Rightarrow> (key \<times> rat \<times> rat option) list \<Rightarrow> rat" where
  "demand k cs = sum_list (map (\<lambda>c. fst (snd c)) (filter (\<lambda>c. fst c = k) cs))"

text \<open>\<open>in_bucket items store l\<close>: the line \<open>l\<close> is in \<^verbatim>\<open>items[store]\<close>.\<close>

definition in_bucket :: "store_items \<Rightarrow> string \<Rightarrow> line \<Rightarrow> bool" where
  "in_bucket items store l = (case map_of items store of None \<Rightarrow> False | Some ls \<Rightarrow> l \<in> set ls)"

text \<open>
  The store lists at the moment the staple pass examines its \<open>i\<close>-th row, when it
  started from \<open>items\<close>.
\<close>

definition staple_pass_state :: "database \<Rightarrow> store_items \<Rightarrow> nat \<Rightarrow> store_items" where
  "staple_pass_state db items i = fold (add_staple db) (take i (staple_need_rows db)) items"

text \<open>One step of the two nested loops, on a contribution.\<close>

definition contribute :: "key \<times> rat \<times> rat option \<Rightarrow> agg_state \<Rightarrow> agg_state" where
  "contribute c st =
     (AList.update (fst c) (required_get (fst st) (fst c) + fst (snd c)) (fst st),
      (case snd (snd c) of
         None \<Rightarrow> snd st
       | Some p \<Rightarrow> (case snd st (fst c) of None \<Rightarrow> (snd st)(fst c \<mapsto> p) | Some _ \<Rightarrow> snd st)))"

text \<open>The first estimated price that is not \<^verbatim>\<open>None\<close> among the contributions to a key.\<close>

definition first_price :: "key \<Rightarrow> (key \<times> rat \<times> rat option) list \<Rightarrow> rat option" where
  "first_price k cs =
     (case filter (\<lambda>c. fst c = k \<and> snd (snd c) \<noteq> None) cs of
        [] \<Rightarrow> None
      | c # _ \<Rightarrow> snd (snd c))"

text \<open>The line the staple pass appends for a row, and the bucket it appends it to.\<close>

definition staple_line :: "database \<Rightarrow> string \<times> string option \<Rightarrow> line" where
  "staple_line db row = (fst row, 0, [], known_price_map db (strip (lower (fst row))))"

definition staple_store :: "string \<times> string option \<Rightarrow> string" where
  "staple_store row = or_str (snd row) ''Staples''"


subsection \<open>The cached list\<close>

text \<open>
  \<^verbatim>\<open>save_cached_list\<close> and \<^verbatim>\<open>load_cached_list\<close> work on whatever Python values they are
  handed and on whatever document \<^verbatim>\<open>json.loads\<close> returns, so the values are modelled
  untyped. Dictionaries have string keys, in insertion order.
\<close>

datatype pyval =
    PNone
  | PBool bool
  | PInt int
  | PFloat rat
  | PStr string
  | PList "pyval list"
  | PTuple "pyval list"
  | PDict "(string \<times> pyval) list"

datatype py_exception = AttributeError | IndexError | KeyError | TypeError

text \<open>
  What \<^verbatim>\<open>json.loads(json.dumps(v))\<close> is for a value \<open>v\<close> of this shape: the same
  document, every tuple read back as a list.
\<close>

fun json_image :: "pyval \<Rightarrow> pyval" where
  "json_image (PList xs) = PList (map json_image xs)"
| "json_image (PTuple xs) = PList (map json_image xs)"
| "json_image (PDict kvs) = PDict (map (\<lambda>kv. (fst kv, json_image (snd kv))) kvs)"
| "json_image v = v"

definition CACHE_KEY :: string where
  "CACHE_KEY = ''saved_shopping_list''"

text \<open>\<^verbatim>\<open>get_setting(key)\<close> and \<^verbatim>\<open>set_setting(key, value)\<close> of \<^verbatim>\<open>config.py\<close>.\<close>

definition get_setting :: "database \<Rightarrow> string \<Rightarrow> string option" where
  "get_setting db k = settings db k"

definition set_setting :: "string \<Rightarrow> string \<Rightarrow> database \<Rightarrow> database" where
  "set_setting k v db = db\<lparr>settings := (settings db)(k \<mapsto> v)\<rparr>"

text \<open>
  \<^verbatim>\<open>save_cached_list\<close>; \<open>dumps\<close> is the standard library's \<^verbatim>\<open>json.dumps\<close>, a parameter.
\<close>

definition payload :: "pyval \<Rightarrow> pyval \<Rightarrow> pyval \<Rightarrow> pyval \<Rightarrow> pyval \<Rightarrow> pyval" where
  "payload shopping_data ingredient_sources start_date end_date use_pantry =
     PDict [(''shopping_data'', shopping_data),
            (''ingredient_sources'', ingredient_sources),
            (''start_date'', start_date),
            (''end_date'', end_date),
            (''use_pantry'', use_pantry)]"

definition save_cached_list ::
  "(pyval \<Rightarrow> string) \<Rightarrow> pyval \<Rightarrow> pyval \<Rightarrow> pyval \<Rightarrow> pyval \<Rightarrow> pyval \<Rightarrow> database \<Rightarrow> database" where
  "save_cached_list dumps shopping_data ingredient_sources start_date end_date use_pantry db =
     set_setting CACHE_KEY
       (dumps (payload shopping_data ingredient_sources start_date end_date use_pantry)) db"

text \<open>\<^verbatim>\<open>clear_cached_list\<close>\<close>

definition clear_cached_list :: "database \<Rightarrow> database" where
  "clear_cached_list db = set_setting CACHE_KEY [] db"

text \<open>Iterating a value (\<^verbatim>\<open>None\<close>: \<^verbatim>\<open>TypeError\<close>, the value is not iterable).\<close>

definition py_iter :: "pyval \<Rightarrow> pyval list option" where
  "py_iter v =
     (case v of
        PList xs \<Rightarrow> Some xs
      | PTuple xs \<Rightarrow> Some xs
      | PStr s \<Rightarrow> Some (map (\<lambda>c. PStr [c]) s)
      | PDict kvs \<Rightarrow> Some (map (\<lambda>kv. PStr (fst kv)) kvs)
      | _ \<Rightarrow> None)"

text \<open>
  \<^verbatim>\<open>[tuple(x) for x in v]\<close>: the members of the tuples (\<^verbatim>\<open>None\<close>: \<^verbatim>\<open>TypeError\<close>), and the
  list of tuples as a value.
\<close>

definition convert_tuples :: "pyval \<Rightarrow> pyval list list option" where
  "convert_tuples v = (case py_iter v of None \<Rightarrow> None | Some items \<Rightarrow> those (map py_iter items))"

definition convert_items :: "pyval \<Rightarrow> pyval option" where
  "convert_items v = map_option (\<lambda>ts. PList (map PTuple ts)) (convert_tuples v)"

text \<open>
  \<^verbatim>\<open>for store in sd: sd[store] = [tuple(item) for item in sd[store]]\<close> when
  \<^verbatim>\<open>sd\<close> is a dictionary.
\<close>

fun convert_stores :: "(string \<times> pyval) list \<Rightarrow> (string \<times> pyval) list option" where
  "convert_stores [] = Some []"
| "convert_stores ((store, v) # rest) =
     (case convert_items v of
        None \<Rightarrow> None
      | Some v' \<Rightarrow> map_option ((#) (store, v')) (convert_stores rest))"

text \<open>
  \<^verbatim>\<open>xs[i]\<close> for a list or tuple of length \<open>n\<close>: the position read, \<^verbatim>\<open>IndexError\<close> out
  of range, \<^verbatim>\<open>TypeError\<close> when \<open>i\<close> is not an integer (a \<^verbatim>\<open>bool\<close> is one).
\<close>

definition py_index :: "pyval \<Rightarrow> nat \<Rightarrow> py_exception + nat" where
  "py_index i n =
     (case (case i of PInt k \<Rightarrow> Some k | PBool b \<Rightarrow> Some (if b then 1 else 0) | _ \<Rightarrow> None) of
        None \<Rightarrow> Inl TypeError
      | Some k \<Rightarrow>
          (let j = (if k < 0 then k + int n else k)
           in if 0 \<le> j \<and> j < int n then Inr (nat j) else Inl IndexError))"

text \<open>
  The same loop when \<^verbatim>\<open>sd\<close> is a list: it is indexed by its own members and updated
  while it is iterated; \<open>j\<close> is the position of the iterator.
\<close>

function convert_list :: "nat \<Rightarrow> pyval list \<Rightarrow> py_exception + pyval list" where
  "convert_list j xs =
     (if length xs \<le> j then Inr xs
      else (case py_index (xs ! j) (length xs) of
              Inl e \<Rightarrow> Inl e
            | Inr i \<Rightarrow>
                (case convert_items (xs ! i) of
                   None \<Rightarrow> Inl TypeError
                 | Some v \<Rightarrow> convert_list (Suc j) (xs[i := v]))))"
  by pat_completeness auto
termination
  by (relation "measure (\<lambda>(j, xs). length xs - j)") auto

definition convert_shopping_data :: "pyval \<Rightarrow> py_exception + pyval" where
  "convert_shopping_data sd =
     (case sd of
        PDict kvs \<Rightarrow>
          (case convert_stores kvs of None \<Rightarrow> Inl TypeError | Some kvs' \<Rightarrow> Inr (PDict kvs'))
      | PList xs \<Rightarrow>
          (case convert_list 0 xs of Inl e \<Rightarrow> Inl e | Inr xs' \<Rightarrow> Inr (PList xs'))
      | PTuple xs \<Rightarrow>
          (case xs of
             [] \<Rightarrow> Inr sd
           | x # _ \<Rightarrow> (case py_index x (length xs) of Inl e \<Rightarrow> Inl e | Inr _ \<Rightarrow> Inl TypeError))
      | PStr s \<Rightarrow> if s = [] then Inr sd else Inl TypeError
      | _ \<Rightarrow> Inl TypeError)"

text \<open>
  The validation of \<^verbatim>\<open>ingredient_sources\<close>: a key is kept, with its whole list, when the
  list is not empty and its first tuple has 6 members.
\<close>

fun valid_sources :: "(string \<times> pyval) list \<Rightarrow> (string \<times> pyval) list option" where
  "valid_sources [] = Some []"
| "valid_sources ((k, src_list) # rest) =
     (case convert_tuples src_list of
        None \<Rightarrow> None
      | Some converted \<Rightarrow>
          (case valid_sources rest of
             None \<Rightarrow> None
           | Some kept \<Rightarrow>
               Some (if converted \<noteq> [] \<and> length (hd converted) = 6
                     then (k, PList (map PTuple converted)) # kept
                     else kept)))"

text \<open>\<^verbatim>\<open>d.get(key, default)\<close>: only a dictionary has the method.\<close>

definition py_get :: "pyval \<Rightarrow> string \<Rightarrow> pyval \<Rightarrow> py_exception + pyval" where
  "py_get d k dflt =
     (case d of
        PDict kvs \<Rightarrow> Inr (case map_of kvs k of None \<Rightarrow> dflt | Some v \<Rightarrow> v)
      | _ \<Rightarrow> Inl AttributeError)"

text \<open>The body of the \<^verbatim>\<open>try\<close> block after \<^verbatim>\<open>json.loads\<close>.\<close>

definition load_body :: "pyval \<Rightarrow> py_exception + pyval" where
  "load_body data =
     (case data of
        PDict kvs \<Rightarrow>
          (case convert_shopping_data
                  (case map_of kvs ''shopping_data'' of None \<Rightarrow> PDict [] | Some sd \<Rightarrow> sd) of
             Inl e \<Rightarrow> Inl e
           | Inr sd' \<Rightarrow>
               (let kvs1 = (case map_of kvs ''shopping_data'' of
                              None \<Rightarrow> kvs
                            | Some _ \<Rightarrow> AList.update ''shopping_data'' sd' kvs)
                in (case py_get (PDict kvs1) ''ingredient_sources'' (PDict []) of
                      Inl e \<Rightarrow> Inl e
                    | Inr (PDict sources) \<Rightarrow>
                        (case valid_sources sources of
                           None \<Rightarrow> Inl TypeError
                         | Some kept \<Rightarrow>
                             Inr (PDict (AList.update ''ingredient_sources'' (PDict kept) kvs1)))
                    | Inr _ \<Rightarrow> Inl AttributeError)))
      | _ \<Rightarrow> Inl AttributeError)"

text \<open>
  \<^verbatim>\<open>load_cached_list\<close>; \<open>loads\<close> is the standard library's \<^verbatim>\<open>json.loads\<close>, a parameter,
  with \<^verbatim>\<open>None\<close> for \<^verbatim>\<open>JSONDecodeError\<close>. The result is \<open>Inr None\<close> for \<^verbatim>\<open>return None\<close>,
  \<open>Inr (Some data)\<close> for \<^verbatim>\<open>return data\<close>, and \<open>Inl e\<close> for an exception that the
  \<^verbatim>\<open>except\<close> clause does not catch.
\<close>

definition load_cached_list ::
  "(string \<Rightarrow> pyval option) \<Rightarrow> database \<Rightarrow> py_exception + pyval option" where
  "load_cached_list loads db =
     (case get_setting db CACHE_KEY of
        None \<Rightarrow> Inr None
      | Some raw \<Rightarrow>
          if raw = [] then Inr None
          else (case loads raw of
                  None \<Rightarrow> Inr None
                | Some data \<Rightarrow>
                    (case load_body data of
                       Inl TypeError \<Rightarrow> Inr None
                     | Inl KeyError \<Rightarrow> Inr None
                     | Inl e \<Rightarrow> Inl e
                     | Inr d \<Rightarrow> Inr (Some d))))"

text \<open>The values \<^verbatim>\<open>generate\<close> and \<^verbatim>\<open>get_ingredient_sources\<close> hand to the cache.\<close>

definition py_of_line :: "line \<Rightarrow> pyval" where
  "py_of_line l =
     PTuple [PStr (fst l), PFloat (fst (snd l)), PStr (fst (snd (snd l))),
             (case snd (snd (snd l)) of None \<Rightarrow> PNone | Some c \<Rightarrow> PFloat c)]"

definition py_of_store_items :: "store_items \<Rightarrow> pyval" where
  "py_of_store_items items = PDict (map (\<lambda>b. (fst b, PList (map py_of_line (snd b)))) items)"

text \<open>
  A trace: per ingredient name the list of its sources, each a tuple of scalars (of
  whatever arity the version that wrote it used).
\<close>

datatype scalar = SNone | SBool bool | SInt int | SFloat rat | SStr string

fun py_of_scalar :: "scalar \<Rightarrow> pyval" where
  "py_of_scalar SNone = PNone"
| "py_of_scalar (SBool b) = PBool b"
| "py_of_scalar (SInt i) = PInt i"
| "py_of_scalar (SFloat x) = PFloat x"
| "py_of_scalar (SStr s) = PStr s"

type_synonym trace = "(string \<times> scalar list list) list"

definition py_of_trace :: "trace \<Rightarrow> pyval" where
  "py_of_trace tr =
     PDict (map (\<lambda>e. (fst e, PList (map (\<lambda>src. PTuple (map py_of_scalar src)) (snd e)))) tr)"

text \<open>The keys of a trace that \<^verbatim>\<open>load_cached_list\<close> keeps.\<close>

definition kept_sources :: "trace \<Rightarrow> trace" where
  "kept_sources tr = filter (\<lambda>e. snd e \<noteq> [] \<and> length (hd (snd e)) = 6) tr"

text \<open>The members of the tuple of a line.\<close>

definition line_fields :: "line \<Rightarrow> pyval list" where
  "line_fields l =
     [PStr (fst l), PFloat (fst (snd l)), PStr (fst (snd (snd l))),
      (case snd (snd (snd l)) of None \<Rightarrow> PNone | Some c \<Rightarrow> PFloat c)]"

subsection \<open>Example databases\<close>

text \<open>
  A week with two recipe-backed dinners and a notes-only lunch. Chicken breast has a known
  price, a recipe price and a pantry price; rice is covered by the pantry; salt is a staple
  that is always on hand; paper towels are a staple that needs to be bought.
\<close>

definition demo_db :: database where
  "demo_db =
     \<lparr>meal_plan =
        [\<lparr>mp_date = ''2026-02-23'', mp_meal_slot = ''Dinner'', mp_recipe_id = Some 1, mp_servings = 2\<rparr>,
         \<lparr>mp_date = ''2026-02-24'', mp_meal_slot = ''Lunch'', mp_recipe_id = None, mp_servings = 1\<rparr>,
         \<lparr>mp_date = ''2026-02-25'', mp_meal_slot = ''Dinner'', mp_recipe_id = Some 2, mp_servings = 1\<rparr>],
      recipe_ingredients =
        [\<lparr>ri_recipe_id = 1, ri_name = ''Chicken Breast'', ri_quantity = Some 1, ri_unit = Some ''lb'',
          ri_estimated_price = Some (399 / 100), ri_shopping_name = None, ri_shopping_qty = None,
          ri_shopping_unit = None\<rparr>,
         \<lparr>ri_recipe_id = 1, ri_name = ''Salt'', ri_quantity = None, ri_unit = None,
          ri_estimated_price = None, ri_shopping_name = None, ri_shopping_qty = None,
          ri_shopping_unit = None\<rparr>,
         \<lparr>ri_recipe_id = 2, ri_name = ''chicken'', ri_quantity = Some 8, ri_unit = Some ''oz'',
          ri_estimated_price = Some 5, ri_shopping_name = Some ''Chicken breast'',
          ri_shopping_qty = Some (1 / 2), ri_shopping_unit = Some ''LB''\<rparr>,
         \<lparr>ri_recipe_id = 2, ri_name = ''Rice'', ri_quantity = Some 1, ri_unit = Some ''cup'',
          ri_estimated_price = None, ri_shopping_name = None, ri_shopping_qty = None,
          ri_shopping_unit = None\<rparr>],
      pantry =
        [\<lparr>p_name = ''Rice'', p_quantity = Some 3, p_estimated_price = Some 2,
          p_preferred_store_id = Some 1\<rparr>,
         \<lparr>p_name = ''chicken breast'', p_quantity = Some (1 / 2), p_estimated_price = Some 2,
          p_preferred_store_id = Some 1\<rparr>],
      staples =
        [\<lparr>st_name = ''salt'', st_preferred_store_id = None, st_need_to_buy = 0\<rparr>,
         \<lparr>st_name = ''paper towels'', st_preferred_store_id = Some 1, st_need_to_buy = 1\<rparr>],
      known_prices = [\<lparr>kp_item_name = ''Chicken Breast'', kp_unit_price = 9 / 2\<rparr>],
      stores = [(1, ''Costco'')],
      settings = Map.empty\<rparr>"

text \<open>One dinner whose recipe lists pepper without a quantity.\<close>

definition pinch_db :: database where
  "pinch_db =
     \<lparr>meal_plan =
        [\<lparr>mp_date = ''2026-02-23'', mp_meal_slot = ''Dinner'', mp_recipe_id = Some 1, mp_servings = 1\<rparr>],
      recipe_ingredients =
        [\<lparr>ri_recipe_id = 1, ri_name = ''Pepper'', ri_quantity = None, ri_unit = None,
          ri_estimated_price = None, ri_shopping_name = None, ri_shopping_qty = None,
          ri_shopping_unit = None\<rparr>],
      pantry = [], staples = [], known_prices = [], stores = [], settings = Map.empty\<rparr>"

text \<open>
  One dinner that needs three cups of milk; the pantry holds one, under a name that was
  typed with a trailing blank, and prefers the store Costco for it.
\<close>

definition padded_db :: database where
  "padded_db =
     \<lparr>meal_plan =
        [\<lparr>mp_date = ''2026-02-23'', mp_meal_slot = ''Dinner'', mp_recipe_id = Some 1, mp_servings = 1\<rparr>],
      recipe_ingredients =
        [\<lparr>ri_recipe_id = 1, ri_name = ''Milk'', ri_quantity = Some 3, ri_unit = Some ''cup'',
          ri_estimated_price = None, ri_shopping_name = None, ri_shopping_qty = None,
          ri_shopping_unit = None\<rparr>],
      pantry =
        [\<lparr>p_name = ''milk '', p_quantity = Some 1, p_estimated_price = None,
          p_preferred_store_id = Some 1\<rparr>],
      staples = [], known_prices = [], stores = [(1, ''Costco'')], settings = Map.empty\<rparr>"


text \<open>
  A generated list and two traces for the cache: in \<open>mixed_trace\<close> the second source of
  the key has the 5 members of the old format behind a first source with 6; in
  \<open>stale_trace\<close> the sources of \<open>''rice''\<close> are all in the old format.
\<close>

definition cached_items :: store_items where
  "cached_items = [(''Costco'', [(''Chicken Breast'', 2, ''lb'', Some 9)])]"

definition mixed_trace :: trace where
  "mixed_trace =
     [(''chicken breast'',
       [[SInt 1, SStr ''Roast Chicken'', SStr ''2026-02-23'', SStr ''Dinner'', SFloat 2, SStr ''lb''],
        [SInt 2, SStr ''Stir Fry'', SStr ''2026-02-25'', SStr ''Dinner'', SFloat (1 / 2)]])]"

definition stale_trace :: trace where
  "stale_trace =
     [(''chicken breast'',
       [[SInt 1, SStr ''Roast Chicken'', SStr ''2026-02-23'', SStr ''Dinner'', SFloat 2, SStr ''lb''],
        [SInt 2, SStr ''Stir Fry'', SStr ''2026-02-25'', SStr ''Dinner'', SFloat (1 / 2), SStr ''lb'']]),
      (''rice'',
       [[SInt 2, SStr ''Stir Fry'', SStr ''2026-02-25'', SStr ''Dinner'', SFloat 1]])]"

definition mixed_payload :: pyval where
  "mixed_payload =
     payload (py_of_store_items cached_items) (py_of_trace mixed_trace)
       (PStr ''2026-02-23'') (PStr ''2026-03-01'') (PBool True)"

definition stale_payload :: pyval where
  "stale_payload =
     payload (py_of_store_items cached_items) (py_of_trace stale_trace)
       (PStr ''2026-02-23'') (PStr ''2026-03-01'') (PBool True)"

text \<open>The text \<^verbatim>\<open>json.dumps\<close> writes for the two payloads.\<close>

definition mixed_text :: string where
  \<open>mixed_text = ''{"shopping_data": {"Costco": [["Chicken Breast", 2.0, "lb", 9.0]]}, "ingredient_sources": {"chicken breast": [[1, "Roast Chicken", "2026-02-23", "Dinner", 2.0, "lb"], [2, "Stir Fry", "2026-02-25", "Dinner", 0.5]]}, "start_date": "2026-02-23", "end_date": "2026-03-01", "use_pantry": true}''\<close>

definition stale_text :: string where
  \<open>stale_text = ''{"shopping_data": {"Costco": [["Chicken Breast", 2.0, "lb", 9.0]]}, "ingredient_sources": {"chicken breast": [[1, "Roast Chicken", "2026-02-23", "Dinner", 2.0, "lb"], [2, "Stir Fry", "2026-02-25", "Dinner", 0.5, "lb"]], "rice": [[2, "Stir Fry", "2026-02-25", "Dinner", 1.0]]}, "start_date": "2026-02-23", "end_date": "2026-03-01", "use_pantry": true}''\<close>

text \<open>
  \<^verbatim>\<open>json.dumps\<close> and \<^verbatim>\<open>json.loads\<close> on the two payloads and their texts (and nothing
  else): what the examples pass for the two parameters.
\<close>

definition example_dumps :: "pyval \<Rightarrow> string" where
  "example_dumps v =
     (if v = mixed_payload then mixed_text else if v = stale_payload then stale_text else ''null'')"

definition example_loads :: "string \<Rightarrow> pyval option" where
  "example_loads raw =
     (if raw = mixed_text then Some (json_image mixed_payload)
      else if raw = stale_text then Some (json_image stale_payload)
      else None)"

section \<open>Properties\<close>

subsection \<open>Normalisation of names\<close>


lemma lower_char_cases:
  "lower_char c = c \<or> (c \<in> set upper_letters \<and> lower_char c \<in> set lower_letters)"
  unfolding lower_char_def upper_letters_def lower_letters_def by simp

lemma lower_char_fixed: "c \<notin> set upper_letters \<Longrightarrow> lower_char c = c"
  unfolding lower_char_def upper_letters_def lower_letters_def by simp

lemma lower_not_upper: "c \<in> set lower_letters \<Longrightarrow> c \<notin> set upper_letters"
  unfolding upper_letters_def lower_letters_def by auto

lemma lower_char_idem: "lower_char (lower_char c) = lower_char c"
  using lower_char_cases [of c] lower_char_fixed lower_not_upper by metis

lemma lower_upper_char: "lower_char (upper_char c) = lower_char c"
  unfolding lower_char_def upper_char_def upper_letters_def lower_letters_def by simp

lemma is_space_lower_char: "is_space (lower_char c) = is_space c"
  unfolding lower_char_def is_space_def upper_letters_def lower_letters_def by simp


lemma lower_idem: "lower (lower s) = lower s"
  by (simp add: lower_def lower_char_idem)

lemma lower_title_from: "lower (title_from b s) = lower s"
  by (induction s arbitrary: b) (simp_all add: lower_def lower_char_idem lower_upper_char)

lemma lower_title: "lower (title s) = lower s"
  by (simp add: title_def lower_title_from)

lemma dropWhile_space_lower: "dropWhile is_space (lower s) = lower (dropWhile is_space s)"
  by (induction s) (simp_all add: lower_def is_space_lower_char)

lemma strip_lower: "strip (lower s) = lower (strip s)"
proof -
  have "rev (lower s) = lower (rev s)" for s
    by (simp add: lower_def rev_map)
  then show ?thesis
    by (simp add: strip_def dropWhile_space_lower)
qed

lemma dropWhile_noop: "xs = [] \<or> \<not> P (hd xs) \<Longrightarrow> dropWhile P xs = xs"
  by (cases xs) auto

lemma strip_head: "strip s = [] \<or> \<not> is_space (hd (strip s))"
proof -
  define t where "t = dropWhile is_space s"
  have t: "t = [] \<or> \<not> is_space (hd t)"
    unfolding t_def using hd_dropWhile by blast
  have split: "t = rev (dropWhile is_space (rev t)) @ rev (takeWhile is_space (rev t))"
    by (metis rev_append rev_rev_ident takeWhile_dropWhile_id)
  show ?thesis
  proof (cases "strip s = []")
    case True then show ?thesis by simp
  next
    case False
    then have "hd (strip s) = hd t"
      using split unfolding strip_def t_def by (metis hd_append2)
    moreover have "t \<noteq> []"
      using False strip_def [of s] t_def by (metis dropWhile.simps(1) rev.simps(1))
    ultimately show ?thesis using t by simp
  qed
qed

lemma strip_idem: "strip (strip s) = strip s"
proof -
  have "dropWhile is_space (strip s) = strip s"
    using strip_head [of s] by (rule dropWhile_noop)
  then have "strip (strip s) = rev (dropWhile is_space (rev (strip s)))"
    by (simp add: strip_def)
  also have "\<dots> = strip s"
    by (simp add: strip_def dropWhile_idem)
  finally show ?thesis .
qed

lemma lower_strip_title: "strip (lower (title (strip (lower x)))) = strip (lower x)"
  by (simp add: lower_title strip_lower lower_idem strip_idem)

subsection \<open>Aggregation as a fold over the contributions\<close>


lemma agg_ing_contribute: "agg_ing servings ing st = contribute (contribution servings ing) st"
  by (simp add: agg_ing_def contribute_def contribution_def Let_def split: option.splits)

lemma fold_agg_ing:
  "fold (agg_ing servings) ings st = fold contribute (map (contribution servings) ings) st"
  by (induction ings arbitrary: st) (simp_all add: agg_ing_contribute)

lemma agg_entries_fold:
  "agg_entries db es st = fold contribute (contributions db es) st"
  by (induction es arbitrary: st) (simp_all add: contributions_def fold_agg_ing)

lemma aggregate_fold:
  "aggregate db es = fold contribute (contributions db es) ([], Map.empty)"
  by (simp add: aggregate_def agg_entries_fold)

lemma required_get_update:
  "required_get (AList.update k v al) k' = (if k' = k then v else required_get al k')"
  by (simp add: required_get_def update_conv')

lemma fold_contribute_get:
  "required_get (fst (fold contribute cs st)) k = required_get (fst st) k + demand k cs"
  by (induction cs arbitrary: st) (simp_all add: demand_def contribute_def required_get_update)

lemma fold_contribute_keys:
  "fst ` set (fst (fold contribute cs st)) = fst ` set (fst st) \<union> fst ` set cs"
  by (induction cs arbitrary: st) (auto simp: contribute_def dom_update)

lemma fold_contribute_distinct:
  "distinct (map fst (fst st)) \<Longrightarrow> distinct (map fst (fst (fold contribute cs st)))"
  by (induction cs arbitrary: st) (simp_all add: contribute_def distinct_update)

lemma fold_contribute_price:
  "snd (fold contribute cs st) k = (case snd st k of Some p \<Rightarrow> Some p | None \<Rightarrow> first_price k cs)"
proof (induction cs arbitrary: st)
  case Nil
  then show ?case by (simp add: first_price_def split: option.splits)
next
  case (Cons c cs)
  show ?case
    by (simp add: Cons.IH) (auto simp: contribute_def first_price_def split: option.splits)
qed

subsection \<open>Store lists\<close>


lemma in_bucket_append:
  "in_bucket (append_item items s l) s' l' \<longleftrightarrow> in_bucket items s' l' \<or> (s' = s \<and> l' = l)"
  by (auto simp: in_bucket_def append_item_def update_conv' split: option.splits)

lemma distinct_append_item:
  "distinct (map fst items) \<Longrightarrow> distinct (map fst (append_item items s l))"
  by (simp add: append_item_def distinct_update)

lemma map_fst_sort_stores: "map fst (sort_stores items) = map fst items"
  by (induction items) (auto simp: sort_stores_def)

lemma map_of_sort_stores:
  "map_of (sort_stores items) s = map_option (sort_key fst) (map_of items s)"
  by (induction items) (auto simp: sort_stores_def)

lemma in_bucket_sort_stores: "in_bucket (sort_stores items) s l = in_bucket items s l"
  by (simp add: in_bucket_def map_of_sort_stores split: option.splits)

lemma in_bucket_Nil: "\<not> in_bucket [] s l"
  by (simp add: in_bucket_def)

lemma in_bucket_fold_reconcile:
  "in_bucket (fold (reconcile_step db up prices) required items) s l \<longleftrightarrow>
     in_bucket items s l \<or> (\<exists>item\<in>set required. emit_line db up prices item = Some (s, l))"
  by (induction required arbitrary: items)
     (auto simp: reconcile_step_def in_bucket_append split: option.splits)

lemma in_bucket_reconcile:
  "in_bucket (reconcile db up prices required) s l \<longleftrightarrow>
     (\<exists>item\<in>set required. emit_line db up prices item = Some (s, l))"
  by (simp add: reconcile_def in_bucket_fold_reconcile in_bucket_Nil)

lemma distinct_fold_reconcile:
  "distinct (map fst items) \<Longrightarrow>
     distinct (map fst (fold (reconcile_step db up prices) required items))"
  by (induction required arbitrary: items)
     (auto simp: reconcile_step_def distinct_append_item split: option.splits)

lemma distinct_recipe_lists: "distinct (map fst (recipe_lists db up agg))"
  by (simp add: recipe_lists_def map_fst_sort_stores reconcile_def distinct_fold_reconcile)

lemma in_bucket_recipe_lists:
  "in_bucket (recipe_lists db up agg) s l \<longleftrightarrow>
     (\<exists>item\<in>set (fst agg). emit_line db up (snd agg) item = Some (s, l))"
  by (simp add: recipe_lists_def in_bucket_sort_stores in_bucket_reconcile)

lemma in_bucket_iff:
  "distinct (map fst items) \<Longrightarrow>
     in_bucket items s l \<longleftrightarrow> (\<exists>ls. (s, ls) \<in> set items \<and> l \<in> set ls)"
proof -
  assume d: "distinct (map fst items)"
  have "in_bucket items s l \<longleftrightarrow> (\<exists>ls. map_of items s = Some ls \<and> l \<in> set ls)"
    by (simp add: in_bucket_def split: option.splits)
  then show ?thesis
    by (simp add: map_of_eq_Some_iff [OF d])
qed

lemma already_listed_iff:
  "distinct (map fst items) \<Longrightarrow>
     already_listed items n \<longleftrightarrow> (\<exists>s l. in_bucket items s l \<and> strip (lower (fst l)) = n)"
proof -
  assume d: "distinct (map fst items)"
  have "already_listed items n \<longleftrightarrow>
          (\<exists>s ls l. (s, ls) \<in> set items \<and> l \<in> set ls \<and> strip (lower (fst l)) = n)"
    unfolding already_listed_def list_ex_iff by fastforce
  also have "\<dots> \<longleftrightarrow> (\<exists>s l. in_bucket items s l \<and> strip (lower (fst l)) = n)"
    unfolding in_bucket_iff [OF d] by blast
  finally show ?thesis .
qed

lemma distinct_add_staple:
  "distinct (map fst items) \<Longrightarrow> distinct (map fst (add_staple db row items))"
  by (simp add: add_staple_def Let_def distinct_append_item)

lemma in_bucket_add_staple_mono:
  "in_bucket items s l \<Longrightarrow> in_bucket (add_staple db row items) s l"
  by (simp add: add_staple_def Let_def in_bucket_append)

lemma in_bucket_fold_add_staple_mono:
  "in_bucket items s l \<Longrightarrow> in_bucket (fold (add_staple db) rows items) s l"
  by (induction rows arbitrary: items) (simp_all add: in_bucket_add_staple_mono)

subsection \<open>The early returns of \<^verbatim>\<open>generate\<close>\<close>

lemma contributions_no_recipe:
  "\<forall>r\<in>set es. \<not> has_recipe r \<Longrightarrow> contributions db es = []"
  by (induction es) (simp_all add: contributions_def)

lemma aggregate_Nil: "aggregate db [] = ([], Map.empty)"
  by (simp add: aggregate_def)

lemma generate_reached:
  assumes "fst (aggregate db (get_meals_in_range db s e)) \<noteq> []"
  shows "generate db s e up = build_list db up (aggregate db (get_meals_in_range db s e))"
proof -
  have "get_meals_in_range db s e \<noteq> []"
    using assms aggregate_Nil [of db] by auto
  then show ?thesis
    using assms by (simp add: generate_def Let_def)
qed

subsection \<open>The lines of the result\<close>

lemma aggregate_keys:
  "fst ` set (fst (aggregate db es)) = fst ` set (contributions db es)"
  by (simp add: aggregate_fold fold_contribute_keys)

lemma aggregate_distinct: "distinct (map fst (fst (aggregate db es)))"
  by (simp add: aggregate_fold fold_contribute_distinct)

lemma contribution_key_normal:
  "c \<in> set (contributions db es) \<Longrightarrow> strip (lower (title (fst (fst c)))) = fst (fst c)"
  by (auto simp: contributions_def contribution_def s_name_def lower_strip_title split: if_splits)

lemma aggregate_key_normal:
  assumes "(k, needed) \<in> set (fst (aggregate db es))"
  shows "strip (lower (title (fst k))) = fst k"
proof -
  from assms have "k \<in> fst ` set (fst (aggregate db es))"
    by force
  then obtain c where "c \<in> set (contributions db es)" "fst c = k"
    unfolding aggregate_keys by auto
  then show ?thesis
    using contribution_key_normal by blast
qed


lemma already_listed_mono:
  assumes "distinct (map fst items)" and "already_listed items n"
  shows "already_listed (add_staple db row items) n"
proof -
  from assms obtain s l where "in_bucket items s l" and "strip (lower (fst l)) = n"
    unfolding already_listed_iff [OF assms(1)] by blast
  then have "in_bucket (add_staple db row items) s l \<and> strip (lower (fst l)) = n"
    by (simp add: in_bucket_add_staple_mono)
  then show ?thesis
    unfolding already_listed_iff [OF distinct_add_staple [OF assms(1)]] by blast
qed

lemma in_bucket_add_staple_new:
  assumes "in_bucket (add_staple db row items) s l" and "\<not> in_bucket items s l"
  shows "\<not> already_listed items (strip (lower (fst l))) \<and> s = staple_store row \<and> l = staple_line db row"
  using assms
  by (auto simp: add_staple_def Let_def in_bucket_append staple_line_def staple_store_def
           split: if_splits)

lemma in_bucket_fold_add_staple_new:
  assumes "distinct (map fst items)"
    and "in_bucket (fold (add_staple db) rows items) s l"
    and "\<not> in_bucket items s l"
  shows "\<not> already_listed items (strip (lower (fst l))) \<and>
         (\<exists>row\<in>set rows. s = staple_store row \<and> l = staple_line db row)"
  using assms
proof (induction rows arbitrary: items)
  case Nil
  then show ?case by simp
next
  case (Cons row rows)
  have d: "distinct (map fst (add_staple db row items))"
    using Cons.prems(1) by (rule distinct_add_staple)
  have f: "in_bucket (fold (add_staple db) rows (add_staple db row items)) s l"
    using Cons.prems(2) by simp
  show ?case
  proof (cases "in_bucket (add_staple db row items) s l")
    case True
    have "row \<in> set (row # rows)"
      by simp
    with in_bucket_add_staple_new [OF True Cons.prems(3)] show ?thesis
      by blast
  next
    case False
    from Cons.IH [OF d f False]
    have "\<not> already_listed (add_staple db row items) (strip (lower (fst l)))"
      and "\<exists>row\<in>set rows. s = staple_store row \<and> l = staple_line db row"
      by simp_all
    then show ?thesis
      using already_listed_mono [OF Cons.prems(1), of "strip (lower (fst l))" db row]
      by (meson list.set_intros(2))
  qed
qed

lemma in_bucket_build_list:
  "in_bucket (build_list db up agg) s l \<longleftrightarrow>
     in_bucket (fold (add_staple db) (staple_need_rows db) (recipe_lists db up agg)) s l"
  by (simp add: build_list_def in_bucket_sort_stores add_staples_def)

lemma in_bucket_generate:
  assumes "(k, needed) \<in> set (fst (aggregate db (get_meals_in_range db s e)))"
  shows "in_bucket (generate db s e up) st l \<longleftrightarrow>
     in_bucket (fold (add_staple db) (staple_need_rows db)
        (recipe_lists db up (aggregate db (get_meals_in_range db s e)))) st l"
proof -
  from assms have "fst (aggregate db (get_meals_in_range db s e)) \<noteq> []"
    by auto
  then show ?thesis
    by (simp add: generate_reached in_bucket_build_list)
qed

lemma recipe_line_in_generate:
  assumes "(k, needed) \<in> set (fst (aggregate db (get_meals_in_range db s e)))"
    and "emit_line db up (snd (aggregate db (get_meals_in_range db s e))) (k, needed) = Some (st, l)"
  shows "in_bucket (generate db s e up) st l"
proof -
  have "in_bucket (recipe_lists db up (aggregate db (get_meals_in_range db s e))) st l"
    unfolding in_bucket_recipe_lists using assms by blast
  then show ?thesis
    unfolding in_bucket_generate [OF assms(1)] by (rule in_bucket_fold_add_staple_mono)
qed

lemma generate_line_cases:
  assumes "(k, needed) \<in> set (fst (aggregate db (get_meals_in_range db s e)))"
    and "in_bucket (generate db s e up) st l"
  shows "(\<exists>item\<in>set (fst (aggregate db (get_meals_in_range db s e))).
            emit_line db up (snd (aggregate db (get_meals_in_range db s e))) item = Some (st, l))
         \<or> (\<not> already_listed (recipe_lists db up (aggregate db (get_meals_in_range db s e)))
                 (strip (lower (fst l)))
            \<and> (\<exists>row\<in>set (staple_need_rows db). st = staple_store row \<and> l = staple_line db row))"
proof (cases "in_bucket (recipe_lists db up (aggregate db (get_meals_in_range db s e))) st l")
  case True
  then show ?thesis
    unfolding in_bucket_recipe_lists by blast
next
  case False
  from assms(2) have "in_bucket (fold (add_staple db) (staple_need_rows db)
        (recipe_lists db up (aggregate db (get_meals_in_range db s e)))) st l"
    unfolding in_bucket_generate [OF assms(1)] .
  from in_bucket_fold_add_staple_new [OF distinct_recipe_lists this False]
  show ?thesis by blast
qed

lemma emit_line_Some:
  "emit_line db up prices (k, needed) = Some (st, l) \<longleftrightarrow>
     fst k \<notin> staple_names db \<and>
     (\<exists>buy. buy_quantity db up (fst k) needed = Some buy \<and>
        st = store_for db (fst k) \<and>
        l = (title (fst k), py_round2 buy, snd k,
             map_option (\<lambda>unit_price. py_round2 (unit_price * buy))
               (resolve_price db prices (fst k, snd k))))"
  by (auto simp: emit_line_def Let_def split: option.splits)




lemma aggregate_value:
  assumes "(k, needed) \<in> set (fst (aggregate db es))"
  shows "needed = demand k (contributions db es)"
proof -
  have "map_of (fst (aggregate db es)) k = Some needed"
    using assms aggregate_distinct [of db es] by simp
  then have n: "required_get (fst (aggregate db es)) k = needed"
    by (simp add: required_get_def)
  have "required_get (fst (aggregate db es)) k
          = required_get (fst ([], Map.empty :: key \<rightharpoonup> rat)) k + demand k (contributions db es)"
    unfolding aggregate_fold by (rule fold_contribute_get)
  also have "required_get (fst ([], Map.empty :: key \<rightharpoonup> rat)) k = 0"
    by (simp add: required_get_def)
  finally show ?thesis
    using n by simp
qed

lemma sum_list_positive:
  fixes xs :: "rat list"
  shows "xs \<noteq> [] \<Longrightarrow> \<forall>x\<in>set xs. 0 < x \<Longrightarrow> 0 < sum_list xs"
  by (induction xs) (auto intro: add_pos_nonneg sum_list_nonneg less_imp_le)



lemma staple_pass_state_Suc:
  assumes "i < length (staple_need_rows db)"
  shows "staple_pass_state db items (Suc i)
           = add_staple db (staple_need_rows db ! i) (staple_pass_state db items i)"
  using assms by (simp add: staple_pass_state_def take_Suc_conv_app_nth)

lemma staple_pass_state_final:
  assumes "i \<le> length (staple_need_rows db)"
  shows "add_staples db items
           = fold (add_staple db) (drop i (staple_need_rows db)) (staple_pass_state db items i)"
proof -
  have "fold (add_staple db) (take i (staple_need_rows db) @ drop i (staple_need_rows db)) items
          = fold (add_staple db) (drop i (staple_need_rows db)) (staple_pass_state db items i)"
    unfolding fold_append staple_pass_state_def by simp
  then show ?thesis
    by (simp add: add_staples_def)
qed

subsection \<open>Reading back what was saved\<close>

lemma json_image_scalar: "json_image (py_of_scalar x) = py_of_scalar x"
  by (cases x) simp_all

lemma json_image_line: "json_image (py_of_line l) = PList (line_fields l)"
  by (simp add: py_of_line_def line_fields_def split: option.splits)

lemma py_of_line_fields: "py_of_line l = PTuple (line_fields l)"
  by (simp add: py_of_line_def line_fields_def)

lemma those_lines:
  "those (map py_iter (map (\<lambda>l. json_image (py_of_line l)) ls)) = Some (map line_fields ls)"
  by (induction ls) (simp_all add: json_image_line py_iter_def)

lemma convert_items_lines:
  "convert_items (PList (map (\<lambda>l. json_image (py_of_line l)) ls)) = Some (PList (map py_of_line ls))"
proof -
  have "convert_tuples (PList (map (\<lambda>l. json_image (py_of_line l)) ls))
          = those (map py_iter (map (\<lambda>l. json_image (py_of_line l)) ls))"
    unfolding convert_tuples_def py_iter_def by simp
  then have "convert_tuples (PList (map (\<lambda>l. json_image (py_of_line l)) ls))
          = Some (map line_fields ls)"
    by (simp only: those_lines)
  then show ?thesis
    by (simp add: convert_items_def py_of_line_fields)
qed

lemma convert_stores_items:
  "convert_stores (map (\<lambda>b. (fst b, PList (map (\<lambda>l. json_image (py_of_line l)) (snd b)))) items)
     = Some (map (\<lambda>b. (fst b, PList (map py_of_line (snd b)))) items)"
  by (induction items) (simp_all add: convert_items_lines)

lemma convert_shopping_data_items:
  "convert_shopping_data (json_image (py_of_store_items items)) = Inr (py_of_store_items items)"
proof -
  have j: "json_image (py_of_store_items items)
          = PDict (map (\<lambda>b. (fst b, PList (map (\<lambda>l. json_image (py_of_line l)) (snd b)))) items)"
    by (simp add: py_of_store_items_def comp_def)
  show ?thesis
    unfolding j by (simp add: convert_shopping_data_def convert_stores_items py_of_store_items_def)
qed

lemma those_sources:
  "those (map py_iter (map (\<lambda>src. PList (map (\<lambda>x. json_image (py_of_scalar x)) src)) srcs))
     = Some (map (map py_of_scalar) srcs)"
  by (induction srcs) (simp_all add: py_iter_def json_image_scalar)

lemma convert_tuples_sources:
  "convert_tuples (PList (map (\<lambda>src. PList (map (\<lambda>x. json_image (py_of_scalar x)) src)) srcs))
     = Some (map (map py_of_scalar) srcs)"
proof -
  have "convert_tuples (PList (map (\<lambda>src. PList (map (\<lambda>x. json_image (py_of_scalar x)) src)) srcs))
     = those (map py_iter (map (\<lambda>src. PList (map (\<lambda>x. json_image (py_of_scalar x)) src)) srcs))"
    unfolding convert_tuples_def py_iter_def by simp
  then show ?thesis
    by (simp only: those_sources)
qed

lemma valid_sources_trace:
  "valid_sources
     (map (\<lambda>e. (fst e, PList (map (\<lambda>src. PList (map (\<lambda>x. json_image (py_of_scalar x)) src)) (snd e)))) tr)
     = Some (map (\<lambda>e. (fst e, PList (map (\<lambda>src. PTuple (map py_of_scalar src)) (snd e))))
               (kept_sources tr))"
proof (induction tr)
  case Nil
  then show ?case by (simp add: kept_sources_def)
next
  case (Cons e tr)
  have hd_len: "length (hd (map (map py_of_scalar) (snd e))) = length (hd (snd e))"
    if "snd e \<noteq> []"
    using that by (cases "snd e") simp_all
  obtain k srcs where e: "e = (k, srcs)"
    by (cases e)
  have step: "valid_sources
     (map (\<lambda>e. (fst e, PList (map (\<lambda>src. PList (map (\<lambda>x. json_image (py_of_scalar x)) src)) (snd e))))
        (e # tr))
     = Some (if srcs \<noteq> [] \<and> length (hd srcs) = 6
             then (k, PList (map (\<lambda>src. PTuple (map py_of_scalar src)) srcs))
                  # map (\<lambda>e. (fst e, PList (map (\<lambda>src. PTuple (map py_of_scalar src)) (snd e))))
                      (kept_sources tr)
             else map (\<lambda>e. (fst e, PList (map (\<lambda>src. PTuple (map py_of_scalar src)) (snd e))))
                      (kept_sources tr))"
    using Cons.IH hd_len unfolding e
    by (auto simp: convert_tuples_sources comp_def)
  show ?case
    unfolding step by (simp add: kept_sources_def e)
qed

lemma load_body_payload:
  "load_body (json_image (payload (py_of_store_items items) (py_of_trace tr)
                            (PStr sdate) (PStr edate) (PBool flag)))
     = Inr (payload (py_of_store_items items) (py_of_trace (kept_sources tr))
              (PStr sdate) (PStr edate) (PBool flag))"
proof -
  define img where "img =
    map (\<lambda>e. (fst e, PList (map (\<lambda>src. PList (map (\<lambda>x. json_image (py_of_scalar x)) src)) (snd e)))) tr"
  define kept where "kept =
    map (\<lambda>e. (fst e, PList (map (\<lambda>src. PTuple (map py_of_scalar src)) (snd e)))) (kept_sources tr)"
  have a: "json_image (py_of_trace tr) = PDict img"
    by (simp add: py_of_trace_def img_def comp_def)
  have b: "valid_sources img = Some kept"
    unfolding img_def kept_def by (rule valid_sources_trace)
  have c: "py_of_trace (kept_sources tr) = PDict kept"
    by (simp add: py_of_trace_def kept_def)
  have d: "json_image (payload (py_of_store_items items) (py_of_trace tr)
                            (PStr sdate) (PStr edate) (PBool flag))
      = PDict [(''shopping_data'', json_image (py_of_store_items items)),
               (''ingredient_sources'', PDict img),
               (''start_date'', PStr sdate),
               (''end_date'', PStr edate),
               (''use_pantry'', PBool flag)]"
    by (simp add: payload_def a)
  show ?thesis
    unfolding d
    by (simp add: load_body_def convert_shopping_data_items py_get_def b c payload_def)
qed

section \<open>The claims\<close>

text \<open>
  Claim C1. For every line item that survives reconciliation, the cost is computed from
  the known price of the item's normalised name (looked up by name only, whatever the
  unit) whenever such a known price exists, also when a recipe price for the (name, unit)
  key and a pantry price for the name exist; the recipe price is used only when there is
  no known price, and the pantry price only when there is neither.
\<close>

theorem price_cascade_precedence:
  assumes "(k, needed) \<in> set (fst (aggregate db (get_meals_in_range db start_date end_date)))"
    and "fst k \<notin> staple_names db"
    and "buy_quantity db use_pantry (fst k) needed = Some buy_qty"
  shows "in_bucket (generate db start_date end_date use_pantry) (store_for db (fst k))
           (title (fst k), py_round2 buy_qty, snd k,
            (case known_price_map db (fst k) of
               Some known \<Rightarrow> Some (py_round2 (known * buy_qty))
             | None \<Rightarrow>
                 (case snd (aggregate db (get_meals_in_range db start_date end_date)) k of
                    Some recipe \<Rightarrow> Some (py_round2 (recipe * buy_qty))
                  | None \<Rightarrow>
                      (case pantry_prices db (fst k) of
                         Some pantry_price \<Rightarrow> Some (py_round2 (pantry_price * buy_qty))
                       | None \<Rightarrow> None))))"
proof -
  let ?agg = "aggregate db (get_meals_in_range db start_date end_date)"
  have "emit_line db use_pantry (snd ?agg) (k, needed) =
          Some (store_for db (fst k),
                (title (fst k), py_round2 buy_qty, snd k,
                 map_option (\<lambda>unit_price. py_round2 (unit_price * buy_qty))
                   (resolve_price db (snd ?agg) (fst k, snd k))))"
    unfolding emit_line_Some using assms(2,3) by simp
  from recipe_line_in_generate [OF assms(1) this] show ?thesis
    by (auto simp: resolve_price_def split: option.splits)
qed

theorem price_cascade_precedence_witness:
  "((''chicken breast'', ''lb''), 5 / 2)
      \<in> set (fst (aggregate demo_db (get_meals_in_range demo_db ''2026-02-23'' ''2026-03-01'')))
   \<and> ''chicken breast'' \<notin> staple_names demo_db
   \<and> buy_quantity demo_db True ''chicken breast'' (5 / 2) = Some 2
   \<and> known_price_map demo_db ''chicken breast'' = Some (9 / 2)
   \<and> snd (aggregate demo_db (get_meals_in_range demo_db ''2026-02-23'' ''2026-03-01''))
         (''chicken breast'', ''lb'') = Some (399 / 100)
   \<and> pantry_prices demo_db ''chicken breast'' = Some 2
   \<and> in_bucket (generate demo_db ''2026-02-23'' ''2026-03-01'' True) ''Costco''
         (''Chicken Breast'', 2, ''lb'', Some 9)"
proof -
  let ?agg = "aggregate demo_db (get_meals_in_range demo_db ''2026-02-23'' ''2026-03-01'')"
  have h1: "((''chicken breast'', ''lb''), 5 / 2) \<in> set (fst ?agg)"
    by code_simp
  have h2: "fst (''chicken breast'', ''lb'') \<notin> staple_names demo_db"
    by code_simp
  have h3: "buy_quantity demo_db True (fst (''chicken breast'', ''lb'')) (5 / 2) = Some 2"
    by code_simp
  have k: "known_price_map demo_db ''chicken breast'' = Some (9 / 2)"
    by code_simp
  have r: "snd ?agg (''chicken breast'', ''lb'') = Some (399 / 100)"
    by code_simp
  have p: "pantry_prices demo_db ''chicken breast'' = Some 2"
    by code_simp
  have s: "store_for demo_db ''chicken breast'' = ''Costco''"
    by code_simp
  have t: "title ''chicken breast'' = ''Chicken Breast''"
    by code_simp
  have q: "py_round2 2 = 2" "py_round2 9 = 9"
    by code_simp+
  from price_cascade_precedence [OF h1 h2 h3]
  have "in_bucket (generate demo_db ''2026-02-23'' ''2026-03-01'' True) ''Costco''
         (''Chicken Breast'', 2, ''lb'', Some 9)"
    by (simp add: k s t q)
  with h1 h2 h3 k r p show ?thesis
    by simp
qed

text \<open>
  Claim C2 (every comparison of names applies \<^verbatim>\<open>lower\<close> and \<^verbatim>\<open>strip\<close> to both sides,
  the pantry lookup for the preferred store included), evaluated where it fails. The
  pantry name \<open>''milk ''\<close> is matched by the quantity lookup, which strips it (one cup on
  hand, two to buy), and missed by the store lookup, whose \<^verbatim>\<open>LOWER(p.name)\<close> does not
  strip: the line lands in \<open>''No Store Assigned''\<close> instead of \<open>''Costco''\<close>.
\<close>

theorem store_lookup_misses_padded_pantry_name:
  "on_hand padded_db ''milk'' = 1
   \<and> generate padded_db ''2026-02-23'' ''2026-02-23'' True
       = [(''No Store Assigned'', [(''Milk'', 2, ''cup'', None)])]"
  by code_simp






text \<open>
  Claim C5. A key whose name is the normalised name of a staple that is always on hand
  (\<^verbatim>\<open>need_to_buy = 0\<close>) is dropped whatever its demand and whatever the pantry flag: no
  recipe-driven list holds a line under that name, and a line of the result under that name
  can only be a zero-quantity staple line of the second pass.
\<close>

theorem staple_exclusion:
  assumes "(k, needed) \<in> set (fst (aggregate db (get_meals_in_range db start_date end_date)))"
    and "fst k \<in> staple_names db"
  shows "\<not> (\<exists>store l.
              in_bucket (recipe_lists db use_pantry
                           (aggregate db (get_meals_in_range db start_date end_date))) store l
              \<and> strip (lower (fst l)) = fst k)
       \<and> (\<forall>store l.
             in_bucket (generate db start_date end_date use_pantry) store l
             \<and> strip (lower (fst l)) = fst k
             \<longrightarrow> fst (snd l) = 0
                 \<and> (\<exists>row\<in>set (staple_need_rows db). store = staple_store row \<and> l = staple_line db row))"
proof -
  let ?agg = "aggregate db (get_meals_in_range db start_date end_date)"
  have no_emit: False
    if i: "item \<in> set (fst ?agg)" and e: "emit_line db use_pantry (snd ?agg) item = Some (store, l)"
      and n: "strip (lower (fst l)) = fst k" for item store l
  proof -
    obtain k' v where item: "item = (k', v)"
      by (cases item)
    from e have l: "fst l = title (fst k')" and ns: "fst k' \<notin> staple_names db"
      unfolding item emit_line_Some by auto
    from i have "strip (lower (title (fst k'))) = fst k'"
      unfolding item by (rule aggregate_key_normal)
    with l n have "fst k' = fst k"
      by simp
    with ns assms(2) show False
      by simp
  qed
  have a: "\<not> (\<exists>store l. in_bucket (recipe_lists db use_pantry ?agg) store l
              \<and> strip (lower (fst l)) = fst k)"
    unfolding in_bucket_recipe_lists using no_emit by blast
  have b: "fst (snd l) = 0
           \<and> (\<exists>row\<in>set (staple_need_rows db). store = staple_store row \<and> l = staple_line db row)"
    if "in_bucket (generate db start_date end_date use_pantry) store l"
      and "strip (lower (fst l)) = fst k" for store l
  proof -
    from generate_line_cases [OF assms(1) that(1)] no_emit that(2)
    have "\<exists>row\<in>set (staple_need_rows db). store = staple_store row \<and> l = staple_line db row"
      by blast
    then show ?thesis
      by (auto simp: staple_line_def)
  qed
  from a b show ?thesis
    by blast
qed

theorem staple_exclusion_witness:
  "((''salt'', []), 0)
      \<in> set (fst (aggregate demo_db (get_meals_in_range demo_db ''2026-02-23'' ''2026-03-01'')))
   \<and> ''salt'' \<in> staple_names demo_db
   \<and> \<not> (\<exists>store q u c. in_bucket (generate demo_db ''2026-02-23'' ''2026-03-01'' False) store
               (''Salt'', q, u, c))"
proof -
  let ?agg = "aggregate demo_db (get_meals_in_range demo_db ''2026-02-23'' ''2026-03-01'')"
  have h1: "((''salt'', []), 0) \<in> set (fst ?agg)"
    by code_simp
  have h2: "fst (''salt'', []) \<in> staple_names demo_db"
    by code_simp
  have n: "strip (lower ''Salt'') = ''salt''"
    by code_simp
  have r: "\<not> (\<exists>row\<in>set (staple_need_rows demo_db). fst (staple_line demo_db row) = ''Salt'')"
    by code_simp
  have "\<exists>row\<in>set (staple_need_rows demo_db). l = staple_line demo_db row"
    if "in_bucket (generate demo_db ''2026-02-23'' ''2026-03-01'' False) store l"
      and "fst l = ''Salt''" for store l
    using staple_exclusion [OF h1 h2, of False] that n by (metis fst_conv)
  then have "\<not> (\<exists>store q u c. in_bucket (generate demo_db ''2026-02-23'' ''2026-03-01'' False) store
               (''Salt'', q, u, c))"
    using r by (metis fst_conv)
  with h1 h2 show ?thesis
    by simp
qed

text \<open>
  Claim C6, as stated: after aggregation every key has a strictly positive total, so that
  without pantry offsetting no line with a non-positive quantity is emitted. It fails for a
  recipe that lists an ingredient without a quantity: the key is created with the total
  \<open>0\<close>, and with pantry offsetting disabled its line is emitted with the quantity \<open>0\<close>.
\<close>

theorem zero_demand_counterexample:
  "fst (aggregate pinch_db (get_meals_in_range pinch_db ''2026-02-23'' ''2026-02-23''))
     = [((''pepper'', []), 0)]
   \<and> generate pinch_db ''2026-02-23'' ''2026-02-23'' False
     = [(''No Store Assigned'', [(''Pepper'', 0, [], None)])]"
  by code_simp

text \<open>
  Claim C6, amended. The total of a key is the plain sum of its contributions (quantity
  times servings, a missing quantity counting \<open>0\<close>, nothing filtered by sign); it is
  strictly positive when every contribution to the key is. Without pantry offsetting the
  quantity to buy is that total, unconditionally, and the line of every key that is not an
  always-on-hand staple is emitted with the rounded total.
\<close>

theorem demand_is_plain_sum:
  assumes "(k, needed) \<in> set (fst (aggregate db (get_meals_in_range db start_date end_date)))"
  shows "needed = demand k (contributions db (get_meals_in_range db start_date end_date))
       \<and> ((\<forall>c\<in>set (contributions db (get_meals_in_range db start_date end_date)).
              fst c = k \<longrightarrow> 0 < fst (snd c)) \<longrightarrow> 0 < needed)
       \<and> buy_quantity db False (fst k) needed = Some needed
       \<and> (fst k \<notin> staple_names db \<longrightarrow>
            (\<exists>c. in_bucket (generate db start_date end_date False) (store_for db (fst k))
                   (title (fst k), py_round2 needed, snd k, c)))"
proof -
  let ?es = "get_meals_in_range db start_date end_date"
  let ?cs = "contributions db ?es"
  have v: "needed = demand k ?cs"
    using assms by (rule aggregate_value)
  have pos: "0 < needed" if p: "\<forall>c\<in>set ?cs. fst c = k \<longrightarrow> 0 < fst (snd c)"
  proof -
    from assms have "k \<in> fst ` set (fst (aggregate db ?es))"
      by force
    then have "filter (\<lambda>c. fst c = k) ?cs \<noteq> []"
      unfolding aggregate_keys by (auto simp: filter_empty_conv)
    then have "0 < sum_list (map (\<lambda>c. fst (snd c)) (filter (\<lambda>c. fst c = k) ?cs))"
      using p by (intro sum_list_positive) auto
    then show ?thesis
      by (simp add: v demand_def)
  qed
  have b: "buy_quantity db False (fst k) needed = Some needed"
    by (simp add: buy_quantity_def)
  have e: "\<exists>c. in_bucket (generate db start_date end_date False) (store_for db (fst k))
                   (title (fst k), py_round2 needed, snd k, c)"
    if "fst k \<notin> staple_names db"
  proof -
    have "emit_line db False (snd (aggregate db ?es)) (k, needed) =
            Some (store_for db (fst k),
                  (title (fst k), py_round2 needed, snd k,
                   map_option (\<lambda>unit_price. py_round2 (unit_price * needed))
                     (resolve_price db (snd (aggregate db ?es)) (fst k, snd k))))"
      unfolding emit_line_Some using that b by simp
    from recipe_line_in_generate [OF assms this] show ?thesis
      by blast
  qed
  from v pos b e show ?thesis
    by blast
qed

theorem demand_is_plain_sum_witness:
  "((''rice'', ''cup''), 1)
      \<in> set (fst (aggregate demo_db (get_meals_in_range demo_db ''2026-02-25'' ''2026-02-25'')))
   \<and> \<not> (\<exists>c\<in>set (contributions demo_db (get_meals_in_range demo_db ''2026-02-25'' ''2026-02-25'')).
            fst c = (''rice'', ''cup'') \<and> \<not> 0 < fst (snd c))
   \<and> demand (''rice'', ''cup'')
         (contributions demo_db (get_meals_in_range demo_db ''2026-02-25'' ''2026-02-25'')) = 1
   \<and> ''rice'' \<notin> staple_names demo_db
   \<and> (\<exists>c. in_bucket (generate demo_db ''2026-02-25'' ''2026-02-25'' False) ''Costco''
            (''Rice'', 1, ''cup'', c))"
proof -
  let ?es = "get_meals_in_range demo_db ''2026-02-25'' ''2026-02-25''"
  have h: "((''rice'', ''cup''), 1) \<in> set (fst (aggregate demo_db ?es))"
    by code_simp
  have p: "\<not> (\<exists>c\<in>set (contributions demo_db ?es). fst c = (''rice'', ''cup'') \<and> \<not> 0 < fst (snd c))"
    by code_simp
  have n: "''rice'' \<notin> staple_names demo_db"
    by code_simp
  have f: "store_for demo_db ''rice'' = ''Costco''"
    by code_simp
  have t: "title ''rice'' = ''Rice''"
    by code_simp
  have r: "py_round2 1 = 1"
    by code_simp
  from demand_is_plain_sum [OF h]
  have "demand (''rice'', ''cup'') (contributions demo_db ?es) = 1"
    and "\<exists>c. in_bucket (generate demo_db ''2026-02-25'' ''2026-02-25'' False) ''Costco''
            (''Rice'', 1, ''cup'', c)"
    by (simp_all add: n f t r)
  with h p n show ?thesis
    by simp
qed

text \<open>
  Claim C7, as stated: saving and then loading gives the same bundle back, except that the
  trace entries whose tuple does not have 6 members are dropped. It fails for a key whose
  first source has 6 members and whose second has 5: only the first tuple of a key is
  looked at, and the key comes back with both.
\<close>

theorem stale_entry_kept_counterexample:
  "load_cached_list example_loads
     (save_cached_list example_dumps (py_of_store_items cached_items) (py_of_trace mixed_trace)
        (PStr ''2026-02-23'') (PStr ''2026-03-01'') (PBool True) demo_db)
   = Inr (Some (payload (py_of_store_items cached_items)
      (PDict
        [(''chicken breast'',
          PList
            [PTuple [PInt 1, PStr ''Roast Chicken'', PStr ''2026-02-23'', PStr ''Dinner'',
                     PFloat 2, PStr ''lb''],
             PTuple [PInt 2, PStr ''Stir Fry'', PStr ''2026-02-25'', PStr ''Dinner'',
                     PFloat (1 / 2)]])])
      (PStr ''2026-02-23'') (PStr ''2026-03-01'') (PBool True)))"
  by code_simp

text \<open>
  Claim C7, amended. Provided \<^verbatim>\<open>json.loads\<close> reads back the document \<^verbatim>\<open>json.dumps\<close> wrote
  (tuples as lists) and that text is not empty, \<^verbatim>\<open>load_cached_list\<close> after
  \<^verbatim>\<open>save_cached_list\<close> returns the saved bundle: the same per-store lines (as tuples
  again), start date, end date and pantry flag, and of the trace exactly the keys whose
  list of sources is not empty and starts with a tuple of 6 members, each with its whole
  list; every other key is dropped with its whole list.
\<close>

theorem cache_round_trip:
  assumes "loads (dumps (payload (py_of_store_items shopping_data) (py_of_trace ingredient_sources)
                           (PStr start_date) (PStr end_date) (PBool use_pantry)))
             = Some (json_image (payload (py_of_store_items shopping_data)
                                   (py_of_trace ingredient_sources)
                                   (PStr start_date) (PStr end_date) (PBool use_pantry)))"
    and "dumps (payload (py_of_store_items shopping_data) (py_of_trace ingredient_sources)
                  (PStr start_date) (PStr end_date) (PBool use_pantry)) \<noteq> []"
  shows "load_cached_list loads
           (save_cached_list dumps (py_of_store_items shopping_data)
              (py_of_trace ingredient_sources) (PStr start_date) (PStr end_date)
              (PBool use_pantry) db)
         = Inr (Some (payload (py_of_store_items shopping_data)
                        (py_of_trace (kept_sources ingredient_sources))
                        (PStr start_date) (PStr end_date) (PBool use_pantry)))"
proof -
  let ?p = "payload (py_of_store_items shopping_data) (py_of_trace ingredient_sources)
              (PStr start_date) (PStr end_date) (PBool use_pantry)"
  have "get_setting
          (save_cached_list dumps (py_of_store_items shopping_data)
             (py_of_trace ingredient_sources) (PStr start_date) (PStr end_date)
             (PBool use_pantry) db) CACHE_KEY = Some (dumps ?p)"
    by (simp add: save_cached_list_def get_setting_def set_setting_def)
  then show ?thesis
    unfolding load_cached_list_def
    by (simp only: option.case assms if_False load_body_payload sum.case)
qed

theorem cache_round_trip_witness:
  "example_loads (example_dumps stale_payload) = Some (json_image stale_payload)
   \<and> example_dumps stale_payload \<noteq> []
   \<and> load_cached_list example_loads
        (save_cached_list example_dumps (py_of_store_items cached_items) (py_of_trace stale_trace)
           (PStr ''2026-02-23'') (PStr ''2026-03-01'') (PBool True) demo_db)
      = Inr (Some (payload (py_of_store_items cached_items)
          (py_of_trace
             [(''chicken breast'',
               [[SInt 1, SStr ''Roast Chicken'', SStr ''2026-02-23'', SStr ''Dinner'', SFloat 2,
                 SStr ''lb''],
                [SInt 2, SStr ''Stir Fry'', SStr ''2026-02-25'', SStr ''Dinner'', SFloat (1 / 2),
                 SStr ''lb'']])])
          (PStr ''2026-02-23'') (PStr ''2026-03-01'') (PBool True)))"
proof -
  have h1: "example_loads (example_dumps stale_payload) = Some (json_image stale_payload)"
    by code_simp
  have h2: "example_dumps stale_payload \<noteq> []"
    by code_simp
  have k: "kept_sources stale_trace =
             [(''chicken breast'',
               [[SInt 1, SStr ''Roast Chicken'', SStr ''2026-02-23'', SStr ''Dinner'', SFloat 2,
                 SStr ''lb''],
                [SInt 2, SStr ''Stir Fry'', SStr ''2026-02-25'', SStr ''Dinner'', SFloat (1 / 2),
                 SStr ''lb'']])]"
    by code_simp
  from cache_round_trip [of example_loads example_dumps cached_items stale_trace
      "''2026-02-23''" "''2026-03-01''" True demo_db] h1 h2
  have "load_cached_list example_loads
        (save_cached_list example_dumps (py_of_store_items cached_items) (py_of_trace stale_trace)
           (PStr ''2026-02-23'') (PStr ''2026-03-01'') (PBool True) demo_db)
      = Inr (Some (payload (py_of_store_items cached_items)
          (py_of_trace (kept_sources stale_trace))
          (PStr ''2026-02-23'') (PStr ''2026-03-01'') (PBool True)))"
    unfolding stale_payload_def by blast
  with h1 h2 show ?thesis
    unfolding k by blast
qed

text \<open>
  Claim C8. During demand aggregation the price recorded for a key is the first estimated
  price that is not \<^verbatim>\<open>None\<close> among the contributions to the key, in the order entry by
  entry and ingredient by ingredient; whatever follows it (\<open>post\<close>) does not change it.
\<close>

theorem first_recipe_price_wins:
  assumes "contributions db entries = pre @ (k, qty, Some p) # post"
    and "\<forall>c\<in>set pre. fst c = k \<longrightarrow> snd (snd c) = None"
  shows "snd (aggregate db entries) k = Some p"
proof -
  have "filter (\<lambda>c. fst c = k \<and> snd (snd c) \<noteq> None) pre = []"
    using assms(2) by (auto simp: filter_empty_conv)
  then have "first_price k (contributions db entries) = Some p"
    by (simp add: first_price_def assms(1))
  then show ?thesis
    by (simp add: aggregate_fold fold_contribute_price)
qed

theorem first_recipe_price_wins_witness:
  "contributions demo_db (get_meals_in_range demo_db ''2026-02-23'' ''2026-03-01'')
     = [] @ ((''chicken breast'', ''lb''), 2, Some (399 / 100))
          # [((''salt'', ''''), 0, None),
             ((''chicken breast'', ''lb''), 1 / 2, Some 5),
             ((''rice'', ''cup''), 1, None)]
   \<and> snd (aggregate demo_db (get_meals_in_range demo_db ''2026-02-23'' ''2026-03-01''))
        (''chicken breast'', ''lb'') = Some (399 / 100)"
proof -
  have h: "contributions demo_db (get_meals_in_range demo_db ''2026-02-23'' ''2026-03-01'')
     = [] @ ((''chicken breast'', ''lb''), 2, Some (399 / 100))
          # [((''salt'', ''''), 0, None),
             ((''chicken breast'', ''lb''), 1 / 2, Some 5),
             ((''rice'', ''cup''), 1, None)]"
    by code_simp
  from first_recipe_price_wins [OF h] h show ?thesis by simp
qed

text \<open>
  Claim C9, as stated: every needed staple that matches no line already listed is appended
  to the bucket of its store. It fails when \<^verbatim>\<open>generate\<close> takes one of its early returns:
  with no meal in the range the result is empty and the needed staple is not in it.
\<close>

theorem staple_skipped_counterexample:
  "staple_need_rows demo_db = [(''paper towels'', Some ''Costco'')]
   \<and> get_meals_in_range demo_db ''2026-03-02'' ''2026-03-08'' = []
   \<and> generate demo_db ''2026-03-02'' ''2026-03-08'' True = []
   \<and> \<not> in_bucket (generate demo_db ''2026-03-02'' ''2026-03-08'' True) ''Costco''
         (''paper towels'', 0, [], None)"
  by code_simp

text \<open>
  Claim C9, amended. When the aggregated demand is not empty, so that \<^verbatim>\<open>generate\<close>
  reaches the staple pass: a needed staple whose normalised name matches the normalised
  display name of no line in any store's list at the moment the pass examines it, is in the
  result, in the bucket named after its preferred store (\<open>''Staples''\<close> when it has none),
  as the line (name as stored, \<open>0\<close>, empty unit, known price of the normalised name or
  \<^verbatim>\<open>None\<close>); a needed staple whose name matches a listed line leaves the lists as they are.
\<close>

theorem needed_staple_injection:
  assumes "fst (aggregate db (get_meals_in_range db start_date end_date)) \<noteq> []"
    and "i < length (staple_need_rows db)"
  shows "(\<not> already_listed
              (staple_pass_state db
                 (recipe_lists db use_pantry (aggregate db (get_meals_in_range db start_date end_date))) i)
              (strip (lower (fst (staple_need_rows db ! i))))
          \<longrightarrow> in_bucket (generate db start_date end_date use_pantry)
                (or_str (snd (staple_need_rows db ! i)) ''Staples'')
                (fst (staple_need_rows db ! i), 0, [],
                 known_price_map db (strip (lower (fst (staple_need_rows db ! i))))))
       \<and> (already_listed
              (staple_pass_state db
                 (recipe_lists db use_pantry (aggregate db (get_meals_in_range db start_date end_date))) i)
              (strip (lower (fst (staple_need_rows db ! i))))
          \<longrightarrow> staple_pass_state db
                (recipe_lists db use_pantry (aggregate db (get_meals_in_range db start_date end_date)))
                (Suc i)
              = staple_pass_state db
                  (recipe_lists db use_pantry (aggregate db (get_meals_in_range db start_date end_date)))
                  i)"
proof -
  let ?items = "recipe_lists db use_pantry (aggregate db (get_meals_in_range db start_date end_date))"
  let ?row = "staple_need_rows db ! i"
  let ?n = "strip (lower (fst ?row))"
  let ?line = "(fst ?row, 0, [], known_price_map db ?n)"
  have gen: "generate db start_date end_date use_pantry
               = sort_stores (add_staples db ?items)"
    using generate_reached [OF assms(1)] by (simp add: build_list_def)
  have final: "add_staples db ?items
      = fold (add_staple db) (drop (Suc i) (staple_need_rows db)) (staple_pass_state db ?items (Suc i))"
    using assms(2) by (intro staple_pass_state_final) simp
  have a: "in_bucket (generate db start_date end_date use_pantry) (or_str (snd ?row) ''Staples'') ?line"
    if "\<not> already_listed (staple_pass_state db ?items i) ?n"
  proof -
    have "in_bucket (staple_pass_state db ?items (Suc i)) (or_str (snd ?row) ''Staples'') ?line"
      unfolding staple_pass_state_Suc [OF assms(2)] using that
      by (simp add: add_staple_def Let_def in_bucket_append)
    then show ?thesis
      unfolding gen final in_bucket_sort_stores by (rule in_bucket_fold_add_staple_mono)
  qed
  have b: "staple_pass_state db ?items (Suc i) = staple_pass_state db ?items i"
    if "already_listed (staple_pass_state db ?items i) ?n"
    unfolding staple_pass_state_Suc [OF assms(2)] using that
    by (simp add: add_staple_def Let_def)
  from a b show ?thesis
    by blast
qed

theorem needed_staple_injection_witness:
  "fst (aggregate demo_db (get_meals_in_range demo_db ''2026-02-23'' ''2026-03-01'')) \<noteq> []
   \<and> staple_need_rows demo_db ! 0 = (''paper towels'', Some ''Costco'')
   \<and> \<not> already_listed
         (staple_pass_state demo_db
            (recipe_lists demo_db True
               (aggregate demo_db (get_meals_in_range demo_db ''2026-02-23'' ''2026-03-01''))) 0)
         ''paper towels''
   \<and> in_bucket (generate demo_db ''2026-02-23'' ''2026-03-01'' True) ''Costco''
        (''paper towels'', 0, [], None)"
proof -
  let ?agg = "aggregate demo_db (get_meals_in_range demo_db ''2026-02-23'' ''2026-03-01'')"
  have h1: "fst ?agg \<noteq> []"
    by code_simp
  have h2: "0 < length (staple_need_rows demo_db)"
    by code_simp
  have r: "staple_need_rows demo_db ! 0 = (''paper towels'', Some ''Costco'')"
    by code_simp
  have n: "strip (lower ''paper towels'') = ''paper towels''"
    by code_simp
  have a: "\<not> already_listed (staple_pass_state demo_db (recipe_lists demo_db True ?agg) 0)
             ''paper towels''"
    by code_simp
  have k: "known_price_map demo_db ''paper towels'' = None"
    by code_simp
  have s: "or_str (Some ''Costco'') ''Staples'' = ''Costco''"
    by code_simp
  from needed_staple_injection [OF h1 h2, of True] a
  have "in_bucket (generate demo_db ''2026-02-23'' ''2026-03-01'' True) ''Costco''
        (''paper towels'', 0, [], None)"
    by (simp add: r n k s)
  with h1 r a show ?thesis
    by simp
qed

text \<open>
  Claim C10. If no meal-plan entry in the inclusive date range carries a recipe reference
  (in particular when the range holds no entry at all), or if the aggregated demand mapping
  is empty, \<^verbatim>\<open>generate\<close> returns the empty mapping: it returns before the staple pass,
  so no staple that needs to be bought appears in the result.
\<close>

theorem generate_empty_without_recipes:
  assumes "(\<forall>r\<in>set (get_meals_in_range db start_date end_date). \<not> has_recipe r)
           \<or> fst (aggregate db (get_meals_in_range db start_date end_date)) = []"
  shows "generate db start_date end_date use_pantry = []
       \<and> \<not> (\<exists>row\<in>set (staple_need_rows db).
               in_bucket (generate db start_date end_date use_pantry)
                 (staple_store row) (staple_line db row))"
proof -
  have "fst (aggregate db (get_meals_in_range db start_date end_date)) = []"
    using assms
  proof
    assume "\<forall>r\<in>set (get_meals_in_range db start_date end_date). \<not> has_recipe r"
    then show ?thesis
      by (simp add: aggregate_fold contributions_no_recipe)
  qed
  then have "generate db start_date end_date use_pantry = []"
    by (simp add: generate_def Let_def)
  then show ?thesis
    by (simp add: in_bucket_Nil)
qed

theorem generate_empty_without_recipes_witness:
  "\<not> (\<exists>r\<in>set (get_meals_in_range demo_db ''2026-02-24'' ''2026-02-24''). has_recipe r)
   \<and> get_meals_in_range demo_db ''2026-02-24'' ''2026-02-24'' \<noteq> []
   \<and> staple_need_rows demo_db = [(''paper towels'', Some ''Costco'')]
   \<and> generate demo_db ''2026-02-24'' ''2026-02-24'' True = []"
proof -
  have h: "\<not> (\<exists>r\<in>set (get_meals_in_range demo_db ''2026-02-24'' ''2026-02-24''). has_recipe r)"
    by code_simp
  have e: "get_meals_in_range demo_db ''2026-02-24'' ''2026-02-24'' \<noteq> []"
    by code_simp
  have n: "staple_need_rows demo_db = [(''paper towels'', Some ''Costco'')]"
    by code_simp
  from generate_empty_without_recipes [of demo_db "''2026-02-24''" "''2026-02-24''" True] h
  have "generate demo_db ''2026-02-24'' ''2026-02-24'' True = []"
    by blast
  with h e n show ?thesis by blast
qed

end
